theory Spec2Isabelle
  imports Complex_Main
begin

section \<open>Shared Python notions\<close>

text \<open>
  The three scripts of the repository (\<^verbatim>\<open>ingest.py\<close>, \<^verbatim>\<open>apirequest.py\<close>,
  \<^verbatim>\<open>subscribers.py\<close>) are embedded as HOL functions. Exceptions are values of
  \<open>py_error\<close>; a function that can raise returns \<open>py_error + 'a\<close>. Calls into libraries
  (HTTP, SMTP, the warehouse driver, pandas' parsers) are not part of the repository:
  their outcomes are inputs of the model.
\<close>

datatype py_error =
    ValueError | IndexError | KeyError | TypeError | AttributeError
  | ZeroDivisionError | JSONDecodeError
  | RequestException | Timeout | HTTPError
  | SMTPAuthenticationError | SMTPException
  | DriverError | ParserError | OtherException

datatype level = INFO | WARNING | ERROR | CRITICAL

text \<open>Python's \<open>s[-k:]\<close>: the start index \<open>len(s) - k\<close> is clipped at 0.\<close>

definition py_slice_last :: "nat \<Rightarrow> 'a list \<Rightarrow> 'a list" where
  "py_slice_last k s = drop (length s - k) s"

text \<open>
  Truthiness of an optional string, as \<open>all([...])\<close> and \<open>if not x\<close> test it: \<open>None\<close>
  and the empty string are false.
\<close>

definition truthy_str :: "string option \<Rightarrow> bool" where
  "truthy_str v = (case v of None \<Rightarrow> False | Some s \<Rightarrow> s \<noteq> [])"

text \<open>
  \<open>str.strip()\<close>. A character of the model is a code point below 256; those that Python
  counts as whitespace are the codes 9 to 13, 28 to 32, 0x85 and 0xA0.
\<close>

definition py_isspace :: "char \<Rightarrow> bool" where
  "py_isspace c =
     (let n = of_char c :: nat
      in (9 \<le> n \<and> n \<le> 13) \<or> (28 \<le> n \<and> n \<le> 32) \<or> n = 133 \<or> n = 160)"

definition py_strip :: "string \<Rightarrow> string" where
  "py_strip s = rev (dropWhile py_isspace (rev (dropWhile py_isspace s)))"

text \<open>\<open>s.split(',')\<close>: always at least one field; empty fields are kept.\<close>

fun py_split :: "char \<Rightarrow> string \<Rightarrow> string list" where
  "py_split sep [] = [[]]"
| "py_split sep (c # cs) =
     (if c = sep then [] # py_split sep cs
      else (case py_split sep cs of
              [] \<Rightarrow> [[c]]
            | f # fs \<Rightarrow> (c # f) # fs))"

text \<open>\<open>s.replace(old, new)\<close> for a non-empty \<open>old\<close>: leftmost, non-overlapping.\<close>

function py_replace :: "string \<Rightarrow> string \<Rightarrow> string \<Rightarrow> string" where
  "py_replace old new s =
     (if s = [] \<or> old = [] then s
      else if take (length old) s = old
           then new @ py_replace old new (drop (length old) s)
           else hd s # py_replace old new (tl s))"
  by pat_completeness auto
termination
  by (relation "measure (\<lambda>(old, new, s). length s)") (auto simp: less_Suc_eq_le intro: Suc_leI)

declare py_replace.simps [simp del]

section \<open>subscribers.py: the WhatsApp broadcaster\<close>

definition mask_phone :: "string \<Rightarrow> string" where
  "mask_phone phone_number =
     (if length phone_number > 4 then ''***'' @ py_slice_last 4 phone_number
      else ''****'')"

definition create_message :: "string \<Rightarrow> string \<Rightarrow> string \<Rightarrow> string" where
  "create_message message_template google_form sender_name =
     (let message = py_replace ''{form_link}'' google_form message_template
      in py_replace ''{sender}'' sender_name message)"

text \<open>
  The environment read at import time (lines 29 to 32): each value is \<open>None\<close> when the
  variable is not set.
\<close>

record env =
  google_form :: "string option"
  recepients :: "string option"
  message_template :: "string option"
  sender_name :: "string option"

text \<open>
  What a run does, in order. Log lines are kept by what they report, not by their text.
\<close>

datatype wa_log =
    Started nat | Processing nat string | SentOk string | Waiting
  | SendFailed string py_error | Summary nat nat
  | MissingEnv | RequiredNames

datatype wa_event =
    Log level wa_log
  | SendWhatMsg string string
  | Sleep nat

datatype wa_outcome = Finished | Crashed py_error

record wa_run =
  outcome :: wa_outcome
  events :: "wa_event list"

text \<open>
  The loop of \<open>send_messages\<close> (lines 61 to 85). \<open>kit idx\<close> is what
  \<open>sendwhatmsg_instantly\<close> does at the \<open>idx\<close>-th contact: \<open>None\<close> when it returns,
  \<open>Some e\<close> when it raises \<open>e\<close>. The state is the pair of counters.
\<close>

fun send_loop ::
  "(nat \<Rightarrow> py_error option) \<Rightarrow> string \<Rightarrow> nat \<Rightarrow> nat \<Rightarrow> string list \<Rightarrow> nat \<times> nat
     \<Rightarrow> wa_event list \<times> nat \<times> nat" where
  "send_loop kit message n_contacts idx [] (success_count, failed_count) =
     ([], success_count, failed_count)"
| "send_loop kit message n_contacts idx (phone_no # rest) (success_count, failed_count) =
     (let masked_number = mask_phone phone_no;
          attempt = [Log INFO (Processing idx masked_number), SendWhatMsg phone_no message]
      in case kit idx of
           None \<Rightarrow>
             (let here = attempt @ [Log INFO (SentOk masked_number)]
                      @ (if idx < n_contacts then [Log INFO Waiting, Sleep 60] else []);
                  (evs, s, f) = send_loop kit message n_contacts (Suc idx) rest
                                  (success_count + 1, failed_count)
              in (here @ evs, s, f))
         | Some e \<Rightarrow>
             (let here = attempt @ [Log ERROR (SendFailed masked_number e)];
                  (evs, s, f) = send_loop kit message n_contacts (Suc idx) rest
                                  (success_count, failed_count + 1)
              in (here @ evs, s, f)))"

definition send_messages ::
  "(nat \<Rightarrow> py_error option) \<Rightarrow> string list \<Rightarrow> string \<Rightarrow> string \<Rightarrow> string \<Rightarrow> wa_event list" where
  "send_messages kit contact_list template form sender =
     (let message = create_message template form sender;
          (evs, s, f) = send_loop kit message (length contact_list) 1 contact_list (0, 0)
      in [Log INFO (Started (length contact_list))] @ evs @ [Log INFO (Summary s f)])"

text \<open>
  Running the file as a script. Line 35 is module-level code executed before the guard of
  line 94: \<open>recepients.split(',')\<close> on \<open>None\<close> raises \<open>AttributeError\<close>, which nothing
  catches. The guard's \<open>all([...])\<close> holds when the four values are set and non-empty;
  otherwise it logs the two lines 97 and 98.
\<close>

definition run_script :: "env \<Rightarrow> (nat \<Rightarrow> py_error option) \<Rightarrow> wa_run" where
  "run_script e kit =
     (case recepients e of
        None \<Rightarrow> \<lparr>outcome = Crashed AttributeError, events = []\<rparr>
      | Some r \<Rightarrow>
          (let contact_list = map py_strip (py_split CHR '','' r)
           in if \<not> (truthy_str (google_form e) \<and> truthy_str (recepients e)
                     \<and> truthy_str (message_template e) \<and> truthy_str (sender_name e))
              then \<lparr>outcome = Finished,
                    events = [Log ERROR MissingEnv, Log ERROR RequiredNames]\<rparr>
              else \<lparr>outcome = Finished,
                    events = send_messages kit contact_list (the (message_template e))
                               (the (google_form e)) (the (sender_name e))\<rparr>))"

definition sends :: "wa_event list \<Rightarrow> (string \<times> string) list" where
  "sends evs = concat (map (\<lambda>ev. case ev of SendWhatMsg p m \<Rightarrow> [(p, m)] | _ \<Rightarrow> []) evs)"

definition logged :: "level \<Rightarrow> wa_event list \<Rightarrow> wa_log list" where
  "logged l evs = concat (map (\<lambda>ev. case ev of Log l' m \<Rightarrow> (if l' = l then [m] else []) | _ \<Rightarrow> []) evs)"


section \<open>apirequest.py: the quote emailer\<close>

subsection \<open>The quote fetcher\<close>

text \<open>
  A decoded JSON document. An object is the list of its items (keys distinct, as in the
  \<open>dict\<close> that \<open>response.json()\<close> builds); numbers are integers.
\<close>

datatype json =
    JNull | JBool bool | JNum int | JStr string
  | JArr "json list" | JObj "(string \<times> json) list"

text \<open>
  What \<open>requests.get\<close> does: it raises, or it returns a response with a status code
  and a body that \<open>response.json()\<close> decodes (\<open>None\<close>: the body is not JSON).
\<close>

datatype http_result = Raises py_error | Response int "json option"

text \<open>\<open>data[0]\<close> and \<open>x['q']\<close> on a decoded document, with Python's exceptions.\<close>

definition subscript_int0 :: "json \<Rightarrow> py_error + json" where
  "subscript_int0 data =
     (case data of
        JArr [] \<Rightarrow> Inl IndexError
      | JArr (x # _) \<Rightarrow> Inr x
      | JStr [] \<Rightarrow> Inl IndexError
      | JStr (c # _) \<Rightarrow> Inr (JStr [c])
      | JObj _ \<Rightarrow> Inl KeyError
      | _ \<Rightarrow> Inl TypeError)"

definition subscript_key :: "json \<Rightarrow> string \<Rightarrow> py_error + json" where
  "subscript_key x k =
     (case x of
        JObj items \<Rightarrow> (case map_of items k of None \<Rightarrow> Inl KeyError | Some v \<Rightarrow> Inr v)
      | _ \<Rightarrow> Inl TypeError)"

text \<open>
  A value inside an f-string: a string is inserted as it is, anything else through
  Python's \<open>str\<close>, which the model takes as the parameter \<open>str_other\<close>.
\<close>

definition py_format :: "(json \<Rightarrow> string) \<Rightarrow> json \<Rightarrow> string" where
  "py_format str_other v = (case v of JStr s \<Rightarrow> s | _ \<Rightarrow> str_other v)"

definition fallback_quote :: string where
  "fallback_quote = ''Believe you can and you're halfway there. - Theodore Roosevelt''"

text \<open>The body of the \<open>try\<close> block of \<open>get_random_quote\<close> (lines 99 to 116).\<close>

definition quote_try :: "(json \<Rightarrow> string) \<Rightarrow> http_result \<Rightarrow> py_error + string" where
  "quote_try str_other r =
     (case r of
        Raises e \<Rightarrow> Inl e
      | Response status_code body \<Rightarrow>
          if status_code = 200 then
            (case body of
               None \<Rightarrow> Inl JSONDecodeError
             | Some data \<Rightarrow>
                 (case subscript_int0 data of
                    Inl e \<Rightarrow> Inl e
                  | Inr first \<Rightarrow>
                      (case subscript_key first ''q'' of
                         Inl e \<Rightarrow> Inl e
                       | Inr quote \<Rightarrow>
                           (case subscript_int0 data of
                              Inl e \<Rightarrow> Inl e
                            | Inr first' \<Rightarrow>
                                (case subscript_key first' ''a'' of
                                   Inl e \<Rightarrow> Inl e
                                 | Inr author \<Rightarrow>
                                     Inr ([CHR 0x22] @ py_format str_other quote @ [CHR 0x22]
                                          @ '' - '' @ py_format str_other author))))))
          else Inr fallback_quote)"

text \<open>The two handlers (lines 118 to 123): the timeout first, then every other exception.\<close>

definition get_random_quote :: "(json \<Rightarrow> string) \<Rightarrow> http_result \<Rightarrow> string" where
  "get_random_quote str_other r =
     (case quote_try str_other r of
        Inr full_quote \<Rightarrow> full_quote
      | Inl e \<Rightarrow> if e = Timeout then fallback_quote else fallback_quote)"

subsection \<open>Sending and the main loop\<close>

type_synonym subscriber = "string \<times> string \<times> string"

datatype smtp_result = Delivered | SmtpRaises py_error

text \<open>
  \<open>send_email\<close> returns \<open>True\<close> when the SMTP session went through and \<open>False\<close> from each
  of its three handlers (lines 187 to 195).
\<close>

definition send_email :: "smtp_result \<Rightarrow> bool" where
  "send_email r =
     (case r of
        Delivered \<Rightarrow> True
      | SmtpRaises e \<Rightarrow>
          if e = SMTPAuthenticationError then False
          else if e = SMTPException then False
          else False)"

text \<open>
  The world of one run: what the subscriber query yields, and what the quote API and the
  SMTP relay do at the \<open>idx\<close>-th subscriber.
\<close>

record world =
  warehouse :: "py_error + subscriber list"
  quote_api :: "nat \<Rightarrow> http_result"
  smtp :: "nat \<Rightarrow> smtp_result"

definition get_subscribers :: "world \<Rightarrow> subscriber list" where
  "get_subscribers w = (case warehouse w of Inl e \<Rightarrow> [] | Inr result_rows \<Rightarrow> result_rows)"

datatype mail_event =
    Mail string string string string bool
  | Pause nat

text \<open>
  The loop of \<open>main\<close> (lines 222 to 236). Only \<open>success_count\<close> is ever assigned in it;
  \<open>failed_count\<close> is passed through as the source leaves it.
\<close>

fun email_loop ::
  "(json \<Rightarrow> string) \<Rightarrow> world \<Rightarrow> nat \<Rightarrow> nat \<Rightarrow> subscriber list \<Rightarrow> nat \<times> nat
     \<Rightarrow> mail_event list \<times> nat \<times> nat" where
  "email_loop str_other w n idx [] (success_count, failed_count) =
     ([], success_count, failed_count)"
| "email_loop str_other w n idx ((first_name, last_name, email) # rest)
       (success_count, failed_count) =
     (let quote = get_random_quote str_other (quote_api w idx);
          ok = send_email (smtp w idx);
          success_count' = (if ok then success_count + 1 else success_count);
          here = [Mail email first_name last_name quote ok]
                   @ (if idx < n then [Pause 30] else []);
          (evs, s, f) = email_loop str_other w n (Suc idx) rest (success_count', failed_count)
      in (here @ evs, s, f))"

text \<open>Python's \<open>a / b\<close> on integers: it raises exactly when \<open>b\<close> is 0.\<close>

definition py_truediv :: "nat \<Rightarrow> nat \<Rightarrow> py_error + rat" where
  "py_truediv a b = (if b = 0 then Inl ZeroDivisionError else Inr (of_nat a / of_nat b))"

text \<open>
  The summary that \<open>main\<close> logs (lines 245 to 248), or the early return of line 211.
  The rate is kept exact; the rounding of Python's floats is not modelled.
\<close>

datatype report =
    Aborted
  | Completed (n_subscribers: nat) (n_success: nat) (n_failed: nat) (success_rate: rat)

definition main :: "(json \<Rightarrow> string) \<Rightarrow> world \<Rightarrow> py_error + (mail_event list \<times> report)" where
  "main str_other w =
     (let subscribers = get_subscribers w
      in if subscribers = [] then Inr ([], Aborted)
         else
           (let (evs, success_count, failed_count) =
                  email_loop str_other w (length subscribers) 1 subscribers (0, 0)
            in case py_truediv success_count (length subscribers) of
                 Inl e \<Rightarrow> Inl e
               | Inr q \<Rightarrow>
                   Inr (evs, Completed (length subscribers) success_count failed_count
                               (q * 100))))"


section \<open>ingest.py: sheet extraction, cleaning and the warehouse loader\<close>

subsection \<open>Tables\<close>

text \<open>
  A cell of a scraped table is the value pandas holds: missing (\<open>NaN\<close>), text, an
  integer, or a float that is not missing. A float is given by the text that Python's
  \<open>str\<close> renders it as (\<open>Flt ''5.0''\<close>), which is all the cleaner reads of it. Pandas
  holds a numeric column with a missing value as \<open>float64\<close>, so an integer read into
  such a column is a \<open>Flt\<close> cell, not a \<open>Num\<close> cell; \<open>Num\<close> cells are the values of an
  \<open>int64\<close> column and the Python integers of an \<open>object\<close> column.

  A dataframe is its column labels, the dtype of each column, and its rows. The labels
  are cells too, since line 91 assigns a row to them. Every row has as many cells as
  there are labels, and every column has a dtype.
\<close>

datatype cell = NaN | Str string | Num int | Flt string

datatype dtype = Int64 | Float64 | Object

record dataframe =
  columns :: "cell list"
  dtypes :: "dtype list"
  rows :: "cell list list"

definition rectangular :: "dataframe \<Rightarrow> bool" where
  "rectangular df =
     (length (dtypes df) = length (columns df)
      \<and> list_all (\<lambda>r. length r = length (columns df)) (rows df))"

definition empty_df :: dataframe where
  "empty_df = \<lparr>columns = [], dtypes = [], rows = []\<rparr>"

subsection \<open>extract_to_df\<close>

datatype node = Text string | Element string "node list"

text \<open>\<open>soup.find_all(tag)\<close>: every element of that name, in document order.\<close>

fun find_all :: "string \<Rightarrow> node \<Rightarrow> node list" where
  "find_all t (Text s) = []"
| "find_all t (Element name kids) =
     (if name = t then [Element name kids] else []) @ concat (map (find_all t) kids)"

definition soup_find_all :: "string \<Rightarrow> node list \<Rightarrow> node list" where
  "soup_find_all t doc = concat (map (find_all t) doc)"

text \<open>Whether an element of that name occurs anywhere in the document.\<close>

fun has_tag :: "string \<Rightarrow> node \<Rightarrow> bool" where
  "has_tag t (Text s) = False"
| "has_tag t (Element name kids) = (name = t \<or> list_ex (has_tag t) kids)"

text \<open>
  What \<open>requests.get\<close> gives: it raises, or it returns a status code and a page, here
  already parsed by BeautifulSoup.
\<close>

datatype fetched = FetchRaises py_error | Page int "node list"

text \<open>
  \<open>extract_to_df\<close> (lines 34 to 68). \<open>raise_for_status\<close> raises for the codes 400 to
  599. \<open>read_html\<close> is pandas' parser of one table element: it raises or returns a list
  of dataframes. Both handlers log and re-raise.
\<close>

definition extract_to_df ::
  "(node \<Rightarrow> py_error + dataframe list) \<Rightarrow> fetched \<Rightarrow> py_error + dataframe" where
  "extract_to_df read_html response =
     (case response of
        FetchRaises e \<Rightarrow> Inl e
      | Page status_code doc \<Rightarrow>
          if 400 \<le> status_code \<and> status_code < 600 then Inl HTTPError
          else
            (case soup_find_all ''table'' doc of
               [] \<Rightarrow> Inr empty_df
             | t # _ \<Rightarrow>
                 (case read_html t of
                    Inl e \<Rightarrow> Inl e
                  | Inr [] \<Rightarrow> Inl IndexError
                  | Inr (df_consent # _) \<Rightarrow> Inr df_consent)))"

subsection \<open>clean_dataframe\<close>

text \<open>Decimal rendering of integers, as Python's \<open>str\<close> gives it.\<close>

definition digit_char :: "nat \<Rightarrow> char" where
  "digit_char d = char_of (48 + d)"

function str_of_nat :: "nat \<Rightarrow> string" where
  "str_of_nat n = (if n < 10 then [digit_char n] else str_of_nat (n div 10) @ [digit_char (n mod 10)])"
  by pat_completeness auto
termination
  by (relation "measure id") auto

declare str_of_nat.simps [simp del]

definition str_of_int :: "int \<Rightarrow> string" where
  "str_of_int i = (if i < 0 then CHR ''-'' # str_of_nat (nat (- i)) else str_of_nat (nat i))"

text \<open>
  \<open>astype(str)\<close> on one cell: Python's \<open>str\<close> of the value the cell holds. On a frame
  and on a column \<open>astype(str)\<close> goes column by column and renders every value by the
  dtype of its column, which is the type of the cell: the floats of a \<open>float64\<close>
  column are \<open>Flt\<close> cells and render with their decimal point.
\<close>

definition py_str :: "cell \<Rightarrow> string" where
  "py_str c =
     (case c of NaN \<Rightarrow> ''nan'' | Str s \<Rightarrow> s | Num i \<Rightarrow> str_of_int i | Flt s \<Rightarrow> s)"

text \<open>
  \<open>df.iloc[0]\<close>, the first row as one series. Over numeric columns only, one of them
  \<open>float64\<close>, the series is \<open>float64\<close> and its integers become floats; over columns
  of one dtype, or with an \<open>object\<close> column, every value stays what it is.
  \<open>float_str i\<close> is Python's \<open>str(float(i))\<close>, a parameter of the model.
\<close>

definition upcast :: "(int \<Rightarrow> string) \<Rightarrow> cell \<Rightarrow> cell" where
  "upcast float_str c = (case c of Num i \<Rightarrow> Flt (float_str i) | _ \<Rightarrow> c)"

definition iloc0 :: "(int \<Rightarrow> string) \<Rightarrow> dataframe \<Rightarrow> cell list" where
  "iloc0 float_str df =
     (if Object \<notin> set (dtypes df) \<and> Float64 \<in> set (dtypes df)
      then map (upcast float_str) (hd (rows df))
      else hd (rows df))"

definition is_digit :: "char \<Rightarrow> bool" where
  "is_digit c = (let n = of_char c :: nat in 48 \<le> n \<and> n \<le> 57)"

definition is_upper :: "char \<Rightarrow> bool" where
  "is_upper c = (let n = of_char c :: nat in 65 \<le> n \<and> n \<le> 90)"

text \<open>
  \<open>str.match(r'^\d+')\<close>: the string starts with a digit. Among the code points below
  256 the decimal digits are 0 to 9.
\<close>

definition match_digits :: "string \<Rightarrow> bool" where
  "match_digits s = (case s of [] \<Rightarrow> False | c # _ \<Rightarrow> is_digit c)"

text \<open>
  \<open>str.match(r'^[A-Z]$')\<close>: one capital letter; \<open>$\<close> also matches before a final
  newline.
\<close>

definition match_upper :: "string \<Rightarrow> bool" where
  "match_upper s =
     (case s of
        [c] \<Rightarrow> is_upper c
      | [c, d] \<Rightarrow> is_upper c \<and> d = CHR 0x0A
      | _ \<Rightarrow> False)"

text \<open>\<open>dropna(how='all')\<close> on rows, then on columns (line 77).\<close>

definition dropna_rows :: "dataframe \<Rightarrow> dataframe" where
  "dropna_rows df = df\<lparr>rows := filter (list_ex (\<lambda>c. c \<noteq> NaN)) (rows df)\<rparr>"

definition select :: "nat list \<Rightarrow> 'a list \<Rightarrow> 'a list" where
  "select js xs = map (nth xs) js"

definition dropna_columns :: "dataframe \<Rightarrow> dataframe" where
  "dropna_columns df =
     (let js = filter (\<lambda>j. list_ex (\<lambda>r. r ! j \<noteq> NaN) (rows df)) [0..<length (columns df)]
      in \<lparr>columns = select js (columns df), dtypes = select js (dtypes df),
          rows = map (select js) (rows df)\<rparr>)"

text \<open>Line 83: every value of the first column, as a string, starts with a digit.\<close>

definition first_col_is_index :: "dataframe \<Rightarrow> bool" where
  "first_col_is_index df = list_all (\<lambda>r. match_digits (py_str (r ! 0))) (rows df)"

definition drop_first_col :: "dataframe \<Rightarrow> dataframe" where
  "drop_first_col df =
     \<lparr>columns = tl (columns df), dtypes = tl (dtypes df), rows = map tl (rows df)\<rparr>"

text \<open>
  Lines 89 and 90: fewer than half of the first row's cells are single capital letters,
  and the first row is not all missing.
\<close>

definition promotes_header :: "(int \<Rightarrow> string) \<Rightarrow> dataframe \<Rightarrow> bool" where
  "promotes_header float_str df =
     (let row0 = iloc0 float_str df
      in 2 * length (filter (\<lambda>c. match_upper (py_str c)) row0) < length (columns df)
         \<and> \<not> list_all (\<lambda>c. c = NaN) row0)"

text \<open>Line 98: the row's cells, as strings, are all the same value.\<close>

definition degenerate :: "cell list \<Rightarrow> bool" where
  "degenerate r = (length (remdups (map py_str r)) = 1)"

text \<open>
  \<open>clean_dataframe\<close> (lines 71 to 109). \<open>df.iloc[0]\<close> at line 79 raises \<open>IndexError\<close>
  on a table with no row; the handler logs and re-raises. Line 91 makes the first row,
  as \<open>df.iloc[0]\<close> gives it, the labels; the columns keep their dtypes.
\<close>

definition clean_dataframe :: "(int \<Rightarrow> string) \<Rightarrow> dataframe \<Rightarrow> py_error + dataframe" where
  "clean_dataframe float_str df0 =
     (let df1 = dropna_columns (dropna_rows df0)
      in if rows df1 = [] then Inl IndexError
         else
           (let df2 = (if first_col_is_index df1 then drop_first_col df1 else df1);
                df3 = (if promotes_header float_str df2
                       then \<lparr>columns = iloc0 float_str df2, dtypes = dtypes df2,
                             rows = tl (rows df2)\<rparr>
                       else df2);
                df4 = df3\<lparr>columns := map (\<lambda>c. Str (py_strip (py_str c))) (columns df3)\<rparr>;
                df5 = df4\<lparr>rows := filter (\<lambda>r. \<not> degenerate r) (rows df4)\<rparr>
            in Inr df5))"


subsection \<open>load_csv_to_clickhouse\<close>

text \<open>
  A value in a CSV cell or returned by the warehouse: missing (\<open>None\<close>, \<open>NaN\<close>,
  \<open>NaT\<close>), text, an integer, or a datetime (a point on one time line, as an integer;
  time zones are not modelled).
\<close>

datatype dbval = DNull | DStr string | DInt int | DTime int

text \<open>Python's truth value, as \<open>if max_timestamp\<close> tests it: a datetime is always true.\<close>

definition py_truthy :: "dbval \<Rightarrow> bool" where
  "py_truthy v = (case v of DNull \<Rightarrow> False | DStr s \<Rightarrow> s \<noteq> [] | DInt i \<Rightarrow> i \<noteq> 0 | DTime t \<Rightarrow> True)"

record csv_file =
  header :: "string list"
  records :: "dbval list list"

record load_args =
  csv_file_path :: csv_file
  host :: string
  database :: string
  table_name :: string
  batch_size :: int
  incremental :: bool
  timestamp_column :: "string option"

text \<open>
  What the warehouse answers to the two queries of lines 152 and 156: \<open>result[0][0]\<close>,
  or the exception raised on the way to it.
\<close>

record clickhouse =
  exists_table :: "py_error + int"
  max_of_column :: "py_error + dbval"

datatype ch_log =
    Connecting string | LastTimestamp dbval | TableEmpty | NoTable
  | NoMaxTimestamp py_error | ReadingCsv | NoNewRecords nat
  | Inserted nat nat nat | IncrementalDone nat nat | LoadDone nat
  | LoadFailed py_error

text \<open>
  What a run does, in order: its log lines, the making of the client object
  (\<open>NewClient\<close>), each \<open>client.execute\<close> (the two queries and the inserts) and
  \<open>client.disconnect\<close>.
\<close>

datatype ch_event =
    Logged level ch_log
  | NewClient string
  | QueryExists
  | QueryMax string
  | Insert string "string list" "dbval list list"
  | Disconnect

record loader_state =
  trace :: "ch_event list"
  total_rows :: nat
  skipped_rows :: nat

definition emit :: "ch_event list \<Rightarrow> loader_state \<Rightarrow> loader_state" where
  "emit evs st = st\<lparr>trace := trace st @ evs\<rparr>"

text \<open>
  \<open>pd.read_csv(..., chunksize=n)\<close>: the rows, \<open>n\<close> at a time. A file with a header and
  no row gives no chunk here; should pandas give one chunk without rows, the loop does
  nothing on it but log, since both branches skip a chunk of length 0.
\<close>

function chunks :: "nat \<Rightarrow> 'a list \<Rightarrow> 'a list list" where
  "chunks n xs = (if n = 0 \<or> xs = [] then [] else take n xs # chunks n (drop n xs))"
  by pat_completeness auto
termination
  by (relation "measure (\<lambda>(n, xs). length xs)") auto

declare chunks.simps [simp del]

text \<open>
  \<open>pd.to_datetime\<close> on one value. A datetime is kept and a missing value becomes
  \<open>NaT\<close> (\<open>None\<close> here); how text and numbers are parsed is pandas' business, the
  parameter \<open>parse\<close>, which may raise.
\<close>

definition to_datetime :: "(dbval \<Rightarrow> py_error + int option) \<Rightarrow> dbval \<Rightarrow> py_error + int option" where
  "to_datetime parse v = (case v of DTime t \<Rightarrow> Inr (Some t) | DNull \<Rightarrow> Inr None | _ \<Rightarrow> parse v)"

definition stamp :: "int option \<Rightarrow> dbval" where
  "stamp t = (case t of None \<Rightarrow> DNull | Some n \<Rightarrow> DTime n)"

fun index_of :: "'a \<Rightarrow> 'a list \<Rightarrow> nat" where
  "index_of x [] = 0"
| "index_of x (y # ys) = (if x = y then 0 else Suc (index_of x ys))"

text \<open>Line 180: the timestamp column of a chunk, converted; one bad value raises.\<close>

fun convert_column ::
  "(dbval \<Rightarrow> py_error + int option) \<Rightarrow> nat \<Rightarrow> dbval list list \<Rightarrow> py_error + dbval list list" where
  "convert_column parse i [] = Inr []"
| "convert_column parse i (r # rs) =
     (case to_datetime parse (r ! i) of
        Inl e \<Rightarrow> Inl e
      | Inr t \<Rightarrow>
          (case convert_column parse i rs of
             Inl e \<Rightarrow> Inl e
           | Inr rs' \<Rightarrow> Inr (r[i := stamp t] # rs')))"

text \<open>Line 185: \<open>row[timestamp_column] > max_ts\<close>; a comparison with \<open>NaT\<close> is false.\<close>

definition newer_than :: "int option \<Rightarrow> dbval \<Rightarrow> bool" where
  "newer_than max_ts v =
     (case (v, max_ts) of (DTime t, Some m) \<Rightarrow> m < t | _ \<Rightarrow> False)"

text \<open>The condition of line 178.\<close>

definition filters :: "load_args \<Rightarrow> dbval \<Rightarrow> bool" where
  "filters a max_timestamp =
     (incremental a \<and> py_truthy max_timestamp
      \<and> (case timestamp_column a of
            None \<Rightarrow> False
          | Some c \<Rightarrow> c \<in> set (header (csv_file_path a))))"

text \<open>Lines 192 to 205: the insert of one chunk, skipped when the chunk has no row.\<close>

definition insert_chunk :: "load_args \<Rightarrow> nat \<Rightarrow> dbval list list \<Rightarrow> loader_state \<Rightarrow> loader_state" where
  "insert_chunk a chunk_num data st =
     (if data = [] then st
      else
        (let new_total = total_rows st + length data
         in (emit [Insert (table_name a) (header (csv_file_path a)) data,
                   Logged INFO (Inserted (chunk_num + 1) (length data) new_total)] st)
              \<lparr>total_rows := new_total\<rparr>))"

text \<open>
  The loop of lines 175 to 205 over the chunks, numbered from \<open>chunk_num\<close>. An exception
  ends it and is returned with the state reached.
\<close>

fun load_chunks ::
  "(dbval \<Rightarrow> py_error + int option) \<Rightarrow> load_args \<Rightarrow> dbval \<Rightarrow> nat \<Rightarrow> dbval list list list
     \<Rightarrow> loader_state \<Rightarrow> py_error option \<times> loader_state" where
  "load_chunks parse a max_timestamp chunk_num [] st = (None, st)"
| "load_chunks parse a max_timestamp chunk_num (chunk # rest) st =
     (if filters a max_timestamp then
        (let i = index_of (the (timestamp_column a)) (header (csv_file_path a))
         in case convert_column parse i chunk of
              Inl e \<Rightarrow> (Some e, st)
            | Inr converted \<Rightarrow>
                (case to_datetime parse max_timestamp of
                   Inl e \<Rightarrow> (Some e, st)
                 | Inr max_ts \<Rightarrow>
                     (let original_len = length converted;
                          kept = filter (\<lambda>r. newer_than max_ts (r ! i)) converted;
                          st1 = st\<lparr>skipped_rows := skipped_rows st + (original_len - length kept)\<rparr>
                      in if kept = []
                         then load_chunks parse a max_timestamp (Suc chunk_num) rest
                                (emit [Logged INFO (NoNewRecords (chunk_num + 1))] st1)
                         else load_chunks parse a max_timestamp (Suc chunk_num) rest
                                (insert_chunk a chunk_num kept st1))))
      else load_chunks parse a max_timestamp (Suc chunk_num) rest
             (insert_chunk a chunk_num chunk st))"

text \<open>
  Lines 145 to 167: the watermark. The inner handler turns every exception of the two
  queries into a warning and \<open>None\<close>. When the table exists, \<open>max_timestamp\<close> is what
  the query returned, whether it is true or not.
\<close>

definition get_watermark :: "clickhouse \<Rightarrow> string \<Rightarrow> loader_state \<Rightarrow> dbval \<times> loader_state" where
  "get_watermark wh c st =
     (case exists_table wh of
        Inl e \<Rightarrow> (DNull, emit [QueryExists, Logged WARNING (NoMaxTimestamp e)] st)
      | Inr flag \<Rightarrow>
          if flag = 1 then
            (case max_of_column wh of
               Inl e \<Rightarrow> (DNull, emit [QueryExists, QueryMax c, Logged WARNING (NoMaxTimestamp e)] st)
             | Inr max_timestamp \<Rightarrow>
                 (max_timestamp,
                  emit [QueryExists, QueryMax c,
                        Logged INFO (if py_truthy max_timestamp then LastTimestamp max_timestamp
                                     else TableEmpty)] st))
          else (DNull, emit [QueryExists, Logged INFO NoTable] st))"

text \<open>
  The body of the outer \<open>try\<close> (lines 141 to 212). The client is made at line 142, before
  the check of line 147. \<open>read_csv\<close> raises \<open>ValueError\<close> for a chunk size below 1.
\<close>

definition load_body ::
  "(dbval \<Rightarrow> py_error + int option) \<Rightarrow> clickhouse \<Rightarrow> load_args \<Rightarrow> py_error option \<times> loader_state" where
  "load_body parse wh a =
     (let st0 = \<lparr>trace = [Logged INFO (Connecting (host a)), NewClient (host a)],
                 total_rows = 0, skipped_rows = 0\<rparr>
      in if incremental a \<and> \<not> truthy_str (timestamp_column a) then (Some ValueError, st0)
         else
           (let (max_timestamp, st1) =
                  (if incremental a then get_watermark wh (the (timestamp_column a)) st0
                   else (DNull, st0));
                st2 = emit [Logged INFO ReadingCsv] st1
            in if batch_size a < 1 then (Some ValueError, st2)
               else
                 (case load_chunks parse a max_timestamp 0
                         (chunks (nat (batch_size a)) (records (csv_file_path a))) st2 of
                    (Some e, st3) \<Rightarrow> (Some e, st3)
                  | (None, st3) \<Rightarrow>
                      (None,
                       emit [Logged INFO (if incremental a
                                          then IncrementalDone (total_rows st3) (skipped_rows st3)
                                          else LoadDone (total_rows st3)),
                             Disconnect] st3))))"

text \<open>The outer handler (lines 214 to 216): log the failure and re-raise.\<close>

definition load_csv_to_clickhouse ::
  "(dbval \<Rightarrow> py_error + int option) \<Rightarrow> clickhouse \<Rightarrow> load_args \<Rightarrow> py_error option \<times> loader_state" where
  "load_csv_to_clickhouse parse wh a =
     (case load_body parse wh a of
        (Some e, st) \<Rightarrow> (Some e, emit [Logged ERROR (LoadFailed e)] st)
      | (None, st) \<Rightarrow> (None, st))"

text \<open>What a trace did to the warehouse and to the log.\<close>

definition inserted_rows :: "ch_event list \<Rightarrow> dbval list list" where
  "inserted_rows evs = concat (map (\<lambda>ev. case ev of Insert t cols data \<Rightarrow> data | _ \<Rightarrow> []) evs)"

definition log_levels :: "ch_event list \<Rightarrow> level list" where
  "log_levels evs = concat (map (\<lambda>ev. case ev of Logged l m \<Rightarrow> [l] | _ \<Rightarrow> []) evs)"

text \<open>
  \<open>Client(...)\<close> of line 142 builds the client object and does not connect: the driver
  opens the connection to the server at the first \<open>client.execute\<close>. So a connection
  has been opened in a run exactly when its trace holds a query or an insert.
\<close>

definition is_execute :: "ch_event \<Rightarrow> bool" where
  "is_execute ev =
     (case ev of QueryExists \<Rightarrow> True | QueryMax c \<Rightarrow> True | Insert t cols data \<Rightarrow> True
      | _ \<Rightarrow> False)"

definition connection_opened :: "ch_event list \<Rightarrow> bool" where
  "connection_opened evs = list_ex is_execute evs"

section \<open>Properties of subscribers.py\<close>

text \<open>
  C8. For every string \<open>s\<close>: when \<open>s\<close> has more than 4 characters, \<open>mask_phone s\<close> is
  \<open>***\<close> followed by the last 4 characters of \<open>s\<close> (the suffix \<open>l\<close> of length 4);
  when \<open>s\<close> has at most 4 characters, it is \<open>****\<close>.
\<close>

theorem mask_phone_spec:
  "(4 < length s \<longrightarrow> (\<exists>p l. s = p @ l \<and> length l = 4 \<and> mask_phone s = ''***'' @ l))
   \<and> (length s \<le> 4 \<longrightarrow> mask_phone s = ''****'')"
proof (intro conjI impI)
  assume long: "4 < length s"
  have "s = take (length s - 4) s @ drop (length s - 4) s" by simp
  moreover have "length (drop (length s - 4) s) = 4" using long by simp
  moreover have "mask_phone s = ''***'' @ drop (length s - 4) s"
    using long by (simp add: mask_phone_def py_slice_last_def)
  ultimately show "\<exists>p l. s = p @ l \<and> length l = 4 \<and> mask_phone s = ''***'' @ l"
    by blast
next
  assume "length s \<le> 4"
  then show "mask_phone s = ''****''" by (simp add: mask_phone_def)
qed

text \<open>The two cases of C8 at a 13-digit number and at a 4-digit one.\<close>

theorem mask_phone_spec_witness:
  "4 < length ''2348012345678'' \<and> mask_phone ''2348012345678'' = ''***5678''
   \<and> length ''0801'' \<le> 4 \<and> mask_phone ''0801'' = ''****''"
  using mask_phone_spec[of "''2348012345678''"] mask_phone_spec[of "''0801''"]
  by (simp add: mask_phone_def py_slice_last_def)

text \<open>
  C7. The claim asks that a missing recipient list, like any other missing value, ends the
  run with a logged error and no send. With \<open>CONTACTS\<close> unset and the three other values
  set, the script never reaches its guard: line 35 raises \<open>AttributeError\<close> while the
  module is loaded, so nothing is logged (and nothing is sent).
\<close>

theorem run_script_without_contacts:
  "run_script \<lparr>google_form = Some ''https://forms.gle/abc'', recepients = None,
       message_template = Some ''Hi {sender}, sign here: {form_link}'',
       sender_name = Some ''Bot''\<rparr> kit
   = \<lparr>outcome = Crashed AttributeError, events = []\<rparr>"
  by (simp add: run_script_def)

text \<open>
  When the recipient list is set, the guard of line 96 does stop a run with a missing or
  empty value: no send, and the two error lines 97 and 98.
\<close>

lemma guard_stops_run:
  assumes "recepients e = Some r"
    and "\<not> (truthy_str (google_form e) \<and> truthy_str (recepients e)
             \<and> truthy_str (message_template e) \<and> truthy_str (sender_name e))"
  shows "run_script e kit
    = \<lparr>outcome = Finished, events = [Log ERROR MissingEnv, Log ERROR RequiredNames]\<rparr>"
  using assms by (simp add: run_script_def Let_def)

text \<open>The rendering of the message template on the scenario of the specification.\<close>

lemma create_message_example:
  "create_message ''Hi {sender}, sign here: {form_link}'' ''http://f'' ''Bot''
     = ''Hi Bot, sign here: http://f''"
  by code_simp

section \<open>Properties of apirequest.py\<close>

text \<open>
  C4. For every outcome \<open>r\<close> of the request: on status 200 with a JSON array whose first
  element is an object holding \<open>q\<close> and \<open>a\<close>, the result is the quote text between
  double quotes, \<open> - \<close> and the author; on any other status, on a timeout or any other
  exception of the request, and on any exception raised inside the \<open>try\<close> block, the
  result is the fallback string, spelled out in the last conjunct. No outcome makes
  \<open>get_random_quote\<close> raise: it returns the fallback string unless the response is of
  the first kind.
\<close>

theorem get_random_quote_spec:
  "(r = Response 200 (Some (JArr (JObj items # others)))
      \<and> map_of items ''q'' = Some q \<and> map_of items ''a'' = Some a
    \<longrightarrow> get_random_quote str_other r
          = [CHR 0x22] @ py_format str_other q @ [CHR 0x22] @ '' - '' @ py_format str_other a)
   \<and> (r = Response status body \<and> status \<noteq> 200
    \<longrightarrow> get_random_quote str_other r = fallback_quote)
   \<and> (r = Raises e \<longrightarrow> get_random_quote str_other r = fallback_quote)
   \<and> (quote_try str_other r = Inl e' \<longrightarrow> get_random_quote str_other r = fallback_quote)
   \<and> (get_random_quote str_other r = fallback_quote
        \<or> (\<exists>items others q a. r = Response 200 (Some (JArr (JObj items # others)))
               \<and> map_of items ''q'' = Some q \<and> map_of items ''a'' = Some a))
   \<and> fallback_quote = ''Believe you can and you're halfway there. - Theodore Roosevelt''"
proof -
  have total: "get_random_quote str_other r = fallback_quote
        \<or> (\<exists>items others q a. r = Response 200 (Some (JArr (JObj items # others)))
               \<and> map_of items ''q'' = Some q \<and> map_of items ''a'' = Some a)"
    by (auto simp: get_random_quote_def quote_try_def subscript_int0_def subscript_key_def
          split: http_result.splits option.splits json.splits list.splits sum.splits)
  show ?thesis
    using total
    by (auto simp: get_random_quote_def quote_try_def subscript_int0_def subscript_key_def
          fallback_quote_def)
qed

text \<open>
  C4 at a good response, at status 503, at a timeout, and at status 200 with an empty
  array (where \<open>data[0]\<close> raises).
\<close>

theorem get_random_quote_spec_witness:
  "get_random_quote (\<lambda>v. ''?'')
      (Response 200 (Some (JArr [JObj [(''q'', JStr ''Test quote''), (''a'', JStr ''Tester'')]])))
     = [CHR 0x22] @ ''Test quote'' @ [CHR 0x22] @ '' - Tester''
   \<and> get_random_quote (\<lambda>v. ''?'') (Response 503 None) = fallback_quote
   \<and> get_random_quote (\<lambda>v. ''?'') (Raises Timeout) = fallback_quote
   \<and> quote_try (\<lambda>v. ''?'') (Response 200 (Some (JArr []))) = Inl IndexError
   \<and> get_random_quote (\<lambda>v. ''?'') (Response 200 (Some (JArr []))) = fallback_quote"
  using get_random_quote_spec[of "Response 200 (Some (JArr [JObj [(''q'', JStr ''Test quote''), (''a'', JStr ''Tester'')]]))"
          "[(''q'', JStr ''Test quote''), (''a'', JStr ''Tester'')]" "[]" "JStr ''Test quote''" "JStr ''Tester''"
          "\<lambda>v. ''?''"]
    get_random_quote_spec[of "Response 503 None" _ _ _ _ "\<lambda>v. ''?''" 503 None]
    get_random_quote_spec[of "Raises Timeout" _ _ _ _ "\<lambda>v. ''?''" _ _ Timeout]
    get_random_quote_spec[of "Response 200 (Some (JArr []))" _ _ _ _ "\<lambda>v. ''?''" _ _ _ IndexError]
  by (simp add: py_format_def quote_try_def subscript_int0_def)

lemma email_loop_counts:
  "email_loop str_other w n idx subs (sc, fc) = (evs, s, f) \<Longrightarrow>
   f = fc \<and> s = sc + length (filter (\<lambda>i. send_email (smtp w i)) [idx..<idx + length subs])"
proof (induction subs arbitrary: idx sc evs s f)
  case Nil
  then show ?case by simp
next
  case (Cons x subs)
  obtain first_name last_name email where x: "x = (first_name, last_name, email)"
    by (cases x) auto
  let ?sc = "if send_email (smtp w idx) then sc + 1 else sc"
  obtain evs' s' f' where rest: "email_loop str_other w n (Suc idx) subs (?sc, fc) = (evs', s', f')"
    by (cases "email_loop str_other w n (Suc idx) subs (?sc, fc)") auto
  from Cons.IH[OF rest]
  have "f' = fc" and "s' = ?sc + length (filter (\<lambda>i. send_email (smtp w i)) [Suc idx..<Suc idx + length subs])"
    by auto
  moreover have "s = s'" and "f = f'"
    using Cons.prems rest unfolding x by (auto simp: Let_def)
  moreover have "[idx..<idx + length (x # subs)] = idx # [Suc idx..<Suc idx + length subs]"
  proof -
    have "[idx..<idx + Suc (length subs)] = idx # [Suc idx..<idx + Suc (length subs)]"
      by (rule upt_conv_Cons) simp
    then show ?thesis by simp
  qed
  ultimately show ?case by simp
qed

text \<open>
  C3. Whenever there is a subscriber, \<open>main\<close> completes and its summary reports as
  successes exactly the number of positions \<open>idx\<close> (counted from 1) at which
  \<open>send_email\<close> returned \<open>True\<close>, and reports 0 failures, whatever the outcomes of the
  sends were.
\<close>

theorem failed_count_stays_zero:
  assumes "get_subscribers w \<noteq> []"
  shows "\<exists>evs rate. main str_other w
     = Inr (evs, Completed (length (get_subscribers w))
                   (length (filter (\<lambda>idx. send_email (smtp w idx))
                      [1..<1 + length (get_subscribers w)]))
                   0 rate)"
proof -
  let ?subs = "get_subscribers w"
  obtain evs s f where loop: "email_loop str_other w (length ?subs) 1 ?subs (0, 0) = (evs, s, f)"
    by (cases "email_loop str_other w (length ?subs) 1 ?subs (0, 0)") auto
  from email_loop_counts[OF loop]
  have "f = 0" and "s = length (filter (\<lambda>idx. send_email (smtp w idx)) [1..<1 + length ?subs])"
    by auto
  with assms loop show ?thesis
    by (simp add: main_def Let_def py_truediv_def)
qed

text \<open>C3 at three subscribers of whom only the second is reached: 1 success, 0 failures.\<close>

theorem failed_count_stays_zero_witness:
  "\<exists>evs rate. main (\<lambda>v. ''?'')
      \<lparr>warehouse = Inr [(''Ada'', ''Lovelace'', ''ada@x.com''), (''Bob'', ''Lee'', ''bob@x.com''),
                        (''Cy'', ''Day'', ''cy@x.com'')],
       quote_api = (\<lambda>idx. Raises Timeout),
       smtp = (\<lambda>idx. if idx = 2 then Delivered else SmtpRaises SMTPException)\<rparr>
     = Inr (evs, Completed 3 1 0 rate)"
proof -
  let ?w = "\<lparr>warehouse = Inr [(''Ada'', ''Lovelace'', ''ada@x.com''), (''Bob'', ''Lee'', ''bob@x.com''),
                        (''Cy'', ''Day'', ''cy@x.com'')],
       quote_api = (\<lambda>idx. Raises Timeout),
       smtp = (\<lambda>idx. if idx = 2 then Delivered else SmtpRaises SMTPException)\<rparr>"
  have h: "get_subscribers ?w \<noteq> []" by (simp add: get_subscribers_def)
  have u: "[1..<4] = [1, 2, 3::nat]" by (simp add: upt_rec)
  from failed_count_stays_zero[OF h, of "\<lambda>v. ''?''"]
  show ?thesis by (simp add: get_subscribers_def send_email_def u eval_nat_numeral)
qed

text \<open>
  C10. With no subscriber (an empty result or a failed query) \<open>main\<close> returns before the
  summary; otherwise the rate is the success count divided by the non-zero number of
  subscribers. In no world does \<open>main\<close> raise \<open>ZeroDivisionError\<close>.
\<close>

theorem success_rate_never_divides_by_zero:
  "(get_subscribers w = [] \<longrightarrow> main str_other w = Inr ([], Aborted))
   \<and> (get_subscribers w \<noteq> [] \<longrightarrow>
        (\<exists>evs s f. main str_other w
           = Inr (evs, Completed (length (get_subscribers w)) s f
                         (of_nat s / of_nat (length (get_subscribers w)) * 100))))
   \<and> main str_other w \<noteq> Inl ZeroDivisionError"
proof -
  let ?subs = "get_subscribers w"
  obtain evs s f where loop: "email_loop str_other w (length ?subs) 1 ?subs (0, 0) = (evs, s, f)"
    by (cases "email_loop str_other w (length ?subs) 1 ?subs (0, 0)") auto
  show ?thesis
    using loop by (cases "?subs = []") (simp_all add: main_def Let_def py_truediv_def)
qed

text \<open>C10 at a failed subscriber query and at one subscriber.\<close>

theorem success_rate_never_divides_by_zero_witness:
  "main (\<lambda>v. ''?'') \<lparr>warehouse = Inl DriverError, quote_api = (\<lambda>idx. Raises Timeout),
       smtp = (\<lambda>idx. Delivered)\<rparr> = Inr ([], Aborted)
   \<and> (\<exists>evs s f. main (\<lambda>v. ''?'')
         \<lparr>warehouse = Inr [(''Ada'', ''Lovelace'', ''ada@x.com'')],
          quote_api = (\<lambda>idx. Raises Timeout), smtp = (\<lambda>idx. Delivered)\<rparr>
        = Inr (evs, Completed 1 s f (of_nat s / 1 * 100)))"
  using success_rate_never_divides_by_zero[of
      "\<lparr>warehouse = Inl DriverError, quote_api = (\<lambda>idx. Raises Timeout), smtp = (\<lambda>idx. Delivered)\<rparr>"
      "\<lambda>v. ''?''"]
    success_rate_never_divides_by_zero[of
      "\<lparr>warehouse = Inr [(''Ada'', ''Lovelace'', ''ada@x.com'')],
        quote_api = (\<lambda>idx. Raises Timeout), smtp = (\<lambda>idx. Delivered)\<rparr>"
      "\<lambda>v. ''?''"]
  by (simp add: get_subscribers_def)

section \<open>Properties of ingest.py\<close>

subsection \<open>Extraction\<close>

lemma find_all_empty: "(find_all t n = []) = (\<not> has_tag t n)"
  by (induction t n rule: find_all.induct) (auto simp: list_ex_iff)

lemma soup_find_all_empty: "(soup_find_all t doc = []) = (\<not> list_ex (has_tag t) doc)"
  by (simp add: soup_find_all_def find_all_empty list_ex_iff)

text \<open>
  C5. When the page was fetched with a status that \<open>raise_for_status\<close> accepts and
  holds no \<open>table\<close> element, \<open>extract_to_df\<close> returns the empty table and does not
  raise. When the request raises, or the status is an error status, it raises (the result
  is \<open>Inl\<close>), so it does not return a table, empty or not.
\<close>

theorem extract_to_df_spec:
  "(response = Page status doc \<and> \<not> (400 \<le> status \<and> status < 600)
      \<and> \<not> list_ex (has_tag ''table'') doc
    \<longrightarrow> extract_to_df read_html response = Inr empty_df)
   \<and> (response = FetchRaises e \<longrightarrow> extract_to_df read_html response = Inl e)
   \<and> (response = Page status doc \<and> 400 \<le> status \<and> status < 600
    \<longrightarrow> extract_to_df read_html response = Inl HTTPError)"
proof (intro conjI impI)
  assume a: "response = Page status doc \<and> \<not> (400 \<le> status \<and> status < 600)
      \<and> \<not> list_ex (has_tag ''table'') doc"
  then have "soup_find_all ''table'' doc = []"
    by (simp add: soup_find_all_empty)
  with a show "extract_to_df read_html response = Inr empty_df"
    by (auto simp: extract_to_df_def)
next
  assume "response = FetchRaises e"
  then show "extract_to_df read_html response = Inl e"
    by (simp add: extract_to_df_def)
next
  assume "response = Page status doc \<and> 400 \<le> status \<and> status < 600"
  then show "extract_to_df read_html response = Inl HTTPError"
    by (simp add: extract_to_df_def)
qed

text \<open>C5 at a page without a table, at a failed request and at status 404.\<close>

theorem extract_to_df_spec_witness:
  "extract_to_df (\<lambda>t. Inl ParserError)
       (Page 200 [Element ''html'' [Element ''body'' [Element ''p'' [Text ''no sheet here'']]]])
     = Inr empty_df
   \<and> extract_to_df (\<lambda>t. Inl ParserError) (FetchRaises RequestException) = Inl RequestException
   \<and> extract_to_df (\<lambda>t. Inl ParserError) (Page 404 []) = Inl HTTPError"
  using extract_to_df_spec[of "Page 200 [Element ''html'' [Element ''body'' [Element ''p'' [Text ''no sheet here'']]]]"
          200 "[Element ''html'' [Element ''body'' [Element ''p'' [Text ''no sheet here'']]]]"
          "\<lambda>t. Inl ParserError"]
    extract_to_df_spec[of "FetchRaises RequestException" _ _ "\<lambda>t. Inl ParserError" RequestException]
    extract_to_df_spec[of "Page 404 []" 404 "[]" "\<lambda>t. Inl ParserError"]
  by simp

subsection \<open>Cleaning\<close>

lemma dropna_rows_id:
  "\<forall>r\<in>set (rows df). \<exists>c\<in>set r. c \<noteq> NaN \<Longrightarrow> dropna_rows df = df"
proof -
  assume a: "\<forall>r\<in>set (rows df). \<exists>c\<in>set r. c \<noteq> NaN"
  have "filter (list_ex (\<lambda>c. c \<noteq> NaN)) (rows df) = rows df"
    using a by (simp add: list_ex_iff)
  then show ?thesis by (simp add: dropna_rows_def)
qed

lemma select_all: "length xs = n \<Longrightarrow> select [0..<n] xs = xs"
  by (auto simp: select_def map_nth)

lemma length_select [simp]: "length (select js xs) = length js"
  by (simp add: select_def)

lemma dropna_columns_id:
  assumes rect: "rectangular df"
    and cols: "\<forall>j\<in>{0..<length (columns df)}. \<exists>r\<in>set (rows df). r ! j \<noteq> NaN"
  shows "dropna_columns df = df"
proof -
  let ?n = "length (columns df)"
  have js: "filter (\<lambda>j. list_ex (\<lambda>r. r ! j \<noteq> NaN) (rows df)) [0..<?n] = [0..<?n]"
    using cols by (simp add: list_ex_iff)
  have "map (select [0..<?n]) (rows df) = rows df"
    using rect by (simp add: rectangular_def list_all_iff select_all map_idI)
  moreover have "select [0..<?n] (columns df) = columns df"
    by (simp add: select_all)
  moreover have "select [0..<?n] (dtypes df) = dtypes df"
    using rect by (simp add: rectangular_def select_all)
  ultimately show ?thesis
    by (simp add: dropna_columns_def js)
qed

lemma stripped_labels_id:
  "\<forall>c\<in>set cs. \<exists>s. c = Str s \<and> py_strip s = s \<Longrightarrow>
   map (\<lambda>c. Str (py_strip (py_str c))) cs = cs"
  by (induction cs) (auto simp: py_str_def)

text \<open>
  A table to which no step of the cleaner applies is returned as it is.
\<close>

lemma clean_dataframe_unchanged:
  assumes nonempty: "rows df \<noteq> []"
    and rect: "rectangular df"
    and no_empty_row: "\<forall>r\<in>set (rows df). \<exists>c\<in>set r. c \<noteq> NaN"
    and no_empty_col: "\<forall>j\<in>{0..<length (columns df)}. \<exists>r\<in>set (rows df). r ! j \<noteq> NaN"
    and no_index: "\<not> first_col_is_index df"
    and no_promotion: "\<not> promotes_header float_str df"
    and labels: "\<forall>c\<in>set (columns df). \<exists>s. c = Str s \<and> py_strip s = s"
    and no_degenerate: "\<forall>r\<in>set (rows df). \<not> degenerate r"
  shows "clean_dataframe float_str df = Inr df"
proof -
  have d1: "dropna_columns (dropna_rows df) = df"
    using dropna_rows_id[OF no_empty_row] dropna_columns_id[OF rect no_empty_col] by simp
  have l: "map (\<lambda>c. Str (py_strip (py_str c))) (columns df) = columns df"
    using labels by (rule stripped_labels_id)
  have r: "filter (\<lambda>r. \<not> degenerate r) (rows df) = rows df"
    using no_degenerate by simp
  show ?thesis
    using nonempty no_index no_promotion
    by (simp add: clean_dataframe_def d1 Let_def l r)
qed

text \<open>Stripping twice is stripping once.\<close>

lemma dropWhile_id: "xs = [] \<or> \<not> P (hd xs) \<Longrightarrow> dropWhile P xs = xs"
  by (cases xs) auto

lemma py_strip_idem: "py_strip (py_strip s) = py_strip s"
proof -
  let ?P = py_isspace
  let ?t = "dropWhile ?P s"
  let ?u = "rev (dropWhile ?P (rev ?t))"
  have t: "?t = [] \<or> \<not> ?P (hd ?t)"
    by (metis hd_dropWhile)
  have split: "?t = ?u @ rev (takeWhile ?P (rev ?t))"
    by (metis rev_append rev_rev_ident takeWhile_dropWhile_id)
  have u: "?u = [] \<or> \<not> ?P (hd ?u)"
  proof (cases "?u = []")
    case True
    then show ?thesis by simp
  next
    case False
    then have a: "hd ?t = hd ?u" using split by (metis hd_append2)
    have b: "?t \<noteq> []" using False split by (metis append_is_Nil_conv)
    show ?thesis using t a b by metis
  qed
  have 1: "dropWhile ?P ?u = ?u"
    using u by (rule dropWhile_id)
  have 2: "dropWhile ?P (rev ?u) = rev ?u"
    by (simp add: dropWhile_idem)
  show ?thesis
    unfolding py_strip_def 1 2 by simp
qed

text \<open>What every output of the cleaner looks like.\<close>

lemma rectangular_dropna_columns: "rectangular (dropna_columns df)"
  by (simp add: rectangular_def dropna_columns_def Let_def list_all_iff)

lemma rectangular_drop_first_col: "rectangular df \<Longrightarrow> rectangular (drop_first_col df)"
  by (simp add: rectangular_def drop_first_col_def list_all_iff)

lemma length_iloc0: "length (iloc0 float_str df) = length (hd (rows df))"
  by (simp add: iloc0_def)

lemma rectangular_promoted:
  assumes "rectangular df" and "rows df \<noteq> []"
  shows "rectangular \<lparr>columns = iloc0 float_str df, dtypes = dtypes df, rows = tl (rows df)\<rparr>"
proof -
  from assms have h: "length (hd (rows df)) = length (columns df)"
    by (cases "rows df") (auto simp: rectangular_def)
  have "\<forall>r\<in>set (tl (rows df)). length r = length (columns df)"
    using assms by (cases "rows df") (auto simp: rectangular_def list_all_iff)
  with assms h show ?thesis
    by (simp add: rectangular_def list_all_iff length_iloc0)
qed

lemma clean_output_shape:
  assumes "clean_dataframe float_str x = Inr d"
  shows "rectangular d"
    and "\<forall>c\<in>set (columns d). \<exists>s. c = Str s \<and> py_strip s = s"
    and "\<forall>r\<in>set (rows d). \<not> degenerate r"
proof -
  let ?df1 = "dropna_columns (dropna_rows x)"
  let ?df2 = "if first_col_is_index ?df1 then drop_first_col ?df1 else ?df1"
  let ?df3 = "if promotes_header float_str ?df2
              then \<lparr>columns = iloc0 float_str ?df2, dtypes = dtypes ?df2, rows = tl (rows ?df2)\<rparr>
              else ?df2"
  from assms have ne: "rows ?df1 \<noteq> []"
    by (auto simp: clean_dataframe_def Let_def split: if_splits)
  from assms ne have d: "d = ?df3\<lparr>columns := map (\<lambda>c. Str (py_strip (py_str c))) (columns ?df3),
                             rows := filter (\<lambda>r. \<not> degenerate r) (rows ?df3)\<rparr>"
    by (simp add: clean_dataframe_def Let_def)
  have r1: "rectangular ?df1" by (rule rectangular_dropna_columns)
  have r2: "rectangular ?df2" using r1 by (simp add: rectangular_drop_first_col)
  have ne2: "rows ?df2 \<noteq> []" using ne by (simp add: drop_first_col_def)
  have r3: "rectangular ?df3" using r2 ne2 by (simp add: rectangular_promoted)
  show "rectangular d"
    unfolding d using r3 by (simp add: rectangular_def list_all_iff)
  show "\<forall>c\<in>set (columns d). \<exists>s. c = Str s \<and> py_strip s = s"
    unfolding d by (auto simp: py_strip_idem)
  show "\<forall>r\<in>set (rows d). \<not> degenerate r"
    unfolding d by simp
qed

lemma remdups_replicate_Suc: "remdups (replicate (Suc n) x) = [x]"
  by (induction n) auto

lemma all_missing_row_degenerate:
  assumes "r \<noteq> []" and "\<forall>c\<in>set r. c = NaN"
  shows "degenerate r"
proof -
  have "map py_str r = replicate (length r) ''nan''"
    using assms(2) by (induction r) (auto simp: py_str_def)
  moreover obtain n where "length r = Suc n"
    using assms(1) by (cases r) auto
  ultimately show ?thesis
    by (simp add: degenerate_def remdups_replicate_Suc del: replicate_Suc)
qed

text \<open>
  C2, as amended. Let \<open>d\<close> be the output of cleaning any table \<open>x\<close>. When \<open>d\<close> has a
  row and a column, no column that is entirely missing, a first column that is not all
  digit-led, and a first row that is not promoted to header, cleaning \<open>d\<close> returns
  \<open>d\<close>: the second application removes no row and no column and promotes no header.
\<close>

theorem clean_dataframe_idempotent_on_outputs:
  assumes out: "clean_dataframe float_str x = Inr d"
    and has_rows: "rows d \<noteq> []"
    and has_cols: "columns d \<noteq> []"
    and no_empty_col: "\<forall>j\<in>{0..<length (columns d)}. \<exists>r\<in>set (rows d). r ! j \<noteq> NaN"
    and no_index: "\<not> first_col_is_index d"
    and no_promotion: "\<not> promotes_header float_str d"
  shows "clean_dataframe float_str d = Inr d"
proof -
  note shape = clean_output_shape[OF out]
  have no_empty_row: "\<forall>r\<in>set (rows d). \<exists>c\<in>set r. c \<noteq> NaN"
  proof
    fix r assume r: "r \<in> set (rows d)"
    then have "length r = length (columns d)"
      using shape(1) by (simp add: rectangular_def list_all_iff)
    with has_cols have "r \<noteq> []" by auto
    moreover have "\<not> degenerate r" using shape(3) r by simp
    ultimately show "\<exists>c\<in>set r. c \<noteq> NaN"
      using all_missing_row_degenerate[of r] by blast
  qed
  show ?thesis
    by (rule clean_dataframe_unchanged[OF has_rows shape(1) no_empty_row no_empty_col
          no_index no_promotion shape(2) shape(3)])
qed

text \<open>
  C2, as amended, at a sheet with a row-number column and the column letters as its first
  row: the first application drops the numbers and renames the columns, the second
  changes nothing.
\<close>

theorem clean_dataframe_idempotent_on_outputs_witness:
  "clean_dataframe (\<lambda>i. str_of_int i @ ''.0'')
       \<lparr>columns = [Num 0, Num 1, Num 2], dtypes = [Int64, Object, Object],
        rows = [[Num 1, Str ''A'', Str ''B''], [Num 2, Str ''Ada'', Str ''ada@x.com'']]\<rparr>
     = Inr \<lparr>columns = [Str ''1'', Str ''2''], dtypes = [Object, Object],
            rows = [[Str ''A'', Str ''B''], [Str ''Ada'', Str ''ada@x.com'']]\<rparr>
   \<and> clean_dataframe (\<lambda>i. str_of_int i @ ''.0'')
       \<lparr>columns = [Str ''1'', Str ''2''], dtypes = [Object, Object],
        rows = [[Str ''A'', Str ''B''], [Str ''Ada'', Str ''ada@x.com'']]\<rparr>
     = Inr \<lparr>columns = [Str ''1'', Str ''2''], dtypes = [Object, Object],
            rows = [[Str ''A'', Str ''B''], [Str ''Ada'', Str ''ada@x.com'']]\<rparr>"
proof -
  let ?f = "\<lambda>i. str_of_int i @ ''.0''"
  let ?x = "\<lparr>columns = [Num 0, Num 1, Num 2], dtypes = [Int64, Object, Object],
        rows = [[Num 1, Str ''A'', Str ''B''], [Num 2, Str ''Ada'', Str ''ada@x.com'']]\<rparr>"
  let ?d = "\<lparr>columns = [Str ''1'', Str ''2''], dtypes = [Object, Object],
        rows = [[Str ''A'', Str ''B''], [Str ''Ada'', Str ''ada@x.com'']]\<rparr>"
  have h1: "clean_dataframe ?f ?x = Inr ?d" by code_simp
  have h2: "rows ?d \<noteq> []" by simp
  have h3: "columns ?d \<noteq> []" by simp
  have h4: "\<forall>j\<in>{0..<length (columns ?d)}. \<exists>r\<in>set (rows ?d). r ! j \<noteq> NaN"
    by (simp add: atLeast0_lessThan_Suc numeral_2_eq_2)
  have h5: "\<not> first_col_is_index ?d"
    by (simp add: first_col_is_index_def py_str_def match_digits_def is_digit_def)
  have h6: "\<not> promotes_header ?f ?d"
    by (simp add: promotes_header_def iloc0_def py_str_def match_upper_def is_upper_def)
  from h1 clean_dataframe_idempotent_on_outputs[OF h1 h2 h3 h4 h5 h6] show ?thesis by simp
qed

text \<open>
  C2 as stated fails. Cleaning a three-row sheet promotes its header row and leaves two
  rows of data; cleaning that output again promotes the first row of data to header and
  leaves one row. The second application does not return the table it was given.
\<close>

theorem clean_dataframe_not_idempotent:
  "clean_dataframe (\<lambda>i. str_of_int i @ ''.0'')
       \<lparr>columns = [Num 0, Num 1], dtypes = [Object, Object],
        rows = [[Str ''Name'', Str ''Email''], [Str ''Ada'', Str ''ada@x.com''],
                [Str ''Bob'', Str ''bob@x.com'']]\<rparr>
     = Inr \<lparr>columns = [Str ''Name'', Str ''Email''], dtypes = [Object, Object],
            rows = [[Str ''Ada'', Str ''ada@x.com''], [Str ''Bob'', Str ''bob@x.com'']]\<rparr>
   \<and> clean_dataframe (\<lambda>i. str_of_int i @ ''.0'')
       \<lparr>columns = [Str ''Name'', Str ''Email''], dtypes = [Object, Object],
        rows = [[Str ''Ada'', Str ''ada@x.com''], [Str ''Bob'', Str ''bob@x.com'']]\<rparr>
     = Inr \<lparr>columns = [Str ''Ada'', Str ''ada@x.com''], dtypes = [Object, Object],
            rows = [[Str ''Bob'', Str ''bob@x.com'']]\<rparr>
   \<and> clean_dataframe (\<lambda>i. str_of_int i @ ''.0'')
       \<lparr>columns = [Str ''Name'', Str ''Email''], dtypes = [Object, Object],
        rows = [[Str ''Ada'', Str ''ada@x.com''], [Str ''Bob'', Str ''bob@x.com'']]\<rparr>
     \<noteq> Inr \<lparr>columns = [Str ''Name'', Str ''Email''], dtypes = [Object, Object],
            rows = [[Str ''Ada'', Str ''ada@x.com''], [Str ''Bob'', Str ''bob@x.com'']]\<rparr>"
  by code_simp

subsection \<open>Loading\<close>


lemma chunks_concat: "0 < n \<Longrightarrow> concat (chunks n xs) = xs"
proof (induction n xs rule: chunks.induct)
  case (1 n xs)
  show ?case
  proof (cases "xs = []")
    case True
    then show ?thesis by (simp add: chunks.simps[of n "[]"])
  next
    case False
    with 1 have "concat (chunks n (drop n xs)) = drop n xs" by simp
    with False 1 show ?thesis by (simp add: chunks.simps[of n xs])
  qed
qed


lemma inserted_rows_append [simp]: "inserted_rows (xs @ ys) = inserted_rows xs @ inserted_rows ys"
  by (simp add: inserted_rows_def)

lemma log_levels_append [simp]: "log_levels (xs @ ys) = log_levels xs @ log_levels ys"
  by (simp add: log_levels_def)




lemma emit_obs [simp]:
  "trace (emit evs st) = trace st @ evs"
  "total_rows (emit evs st) = total_rows st"
  "skipped_rows (emit evs st) = skipped_rows st"
  by (simp_all add: emit_def)

lemma inserted_rows_Logged [simp]: "inserted_rows [Logged l msg] = []"
  by (simp add: inserted_rows_def)

lemma log_levels_Logged [simp]: "log_levels [Logged l msg] = [l]"
  by (simp add: log_levels_def)

lemma insert_chunk_obs:
  "inserted_rows (trace (insert_chunk a k data st)) = inserted_rows (trace st) @ data"
  "total_rows (insert_chunk a k data st) = total_rows st + length data"
  "skipped_rows (insert_chunk a k data st) = skipped_rows st"
  "log_levels (trace (insert_chunk a k data st)) = log_levels (trace st) @ (if data = [] then [] else [INFO])"
  by (simp_all add: insert_chunk_def emit_def Let_def inserted_rows_def log_levels_def)

lemma load_chunks_plain:
  "\<not> filters a v \<Longrightarrow>
   \<exists>st'. load_chunks parse a v k cs st = (None, st')
      \<and> inserted_rows (trace st') = inserted_rows (trace st) @ concat cs
      \<and> total_rows st' = total_rows st + length (concat cs)
      \<and> skipped_rows st' = skipped_rows st
      \<and> set (log_levels (trace st')) \<subseteq> set (log_levels (trace st)) \<union> {INFO}"
proof (induction cs arbitrary: k st)
  case Nil
  then show ?case by auto
next
  case (Cons c cs)
  from Cons.IH[OF Cons.prems, of "Suc k" "insert_chunk a k c st"]
  obtain st' where "load_chunks parse a v (Suc k) cs (insert_chunk a k c st) = (None, st')"
      and "inserted_rows (trace st') = inserted_rows (trace (insert_chunk a k c st)) @ concat cs"
      and "total_rows st' = total_rows (insert_chunk a k c st) + length (concat cs)"
      and "skipped_rows st' = skipped_rows (insert_chunk a k c st)"
      and "set (log_levels (trace st')) \<subseteq> set (log_levels (trace (insert_chunk a k c st))) \<union> {INFO}"
    by blast
  with Cons.prems show ?case
    by (auto simp: insert_chunk_obs split: if_splits)
qed




lemma watermark_found:
  "exists_table wh = Inr 1 \<Longrightarrow> max_of_column wh = Inr v \<Longrightarrow>
   get_watermark wh c st =
     (v, emit [QueryExists, QueryMax c,
               Logged INFO (if py_truthy v then LastTimestamp v else TableEmpty)] st)"
  by (simp add: get_watermark_def)

lemma inserted_rows_simps [simp]:
  "inserted_rows [] = []"
  "inserted_rows (Logged l msg # evs) = inserted_rows evs"
  "inserted_rows (NewClient h # evs) = inserted_rows evs"
  "inserted_rows (QueryExists # evs) = inserted_rows evs"
  "inserted_rows (QueryMax c # evs) = inserted_rows evs"
  "inserted_rows (Insert t cols data # evs) = data @ inserted_rows evs"
  "inserted_rows (Disconnect # evs) = inserted_rows evs"
  by (simp_all add: inserted_rows_def)

lemma log_levels_simps [simp]:
  "log_levels [] = []"
  "log_levels (Logged l msg # evs) = l # log_levels evs"
  "log_levels (NewClient h # evs) = log_levels evs"
  "log_levels (QueryExists # evs) = log_levels evs"
  "log_levels (QueryMax c # evs) = log_levels evs"
  "log_levels (Insert t cols data # evs) = log_levels evs"
  "log_levels (Disconnect # evs) = log_levels evs"
  by (simp_all add: log_levels_def)

text \<open>
  Line 178 tests the truth value of the watermark, not whether it is \<open>None\<close>: a
  watermark 0 of an integer column or an empty text does not filter.
\<close>

lemma falsy_watermark_disables_filter: "\<not> py_truthy v \<Longrightarrow> \<not> filters a v"
  by (simp add: filters_def)




text \<open>
  C9. In incremental mode with a watermark \<open>T\<close> that is not null, when the CSV has no
  column named \<open>c\<close>: every row is inserted, \<open>skipped_rows\<close> stays 0, and every log
  line of the run is at level \<open>INFO\<close>, so no warning and no error is produced.
\<close>

theorem missing_timestamp_column_loads_all:
  assumes inc: "incremental a"
    and col: "timestamp_column a = Some c" "c \<noteq> []" "c \<notin> set (header (csv_file_path a))"
    and bs: "1 \<le> batch_size a"
    and wh: "exists_table wh = Inr 1" "max_of_column wh = Inr T" "T \<noteq> DNull"
  shows "\<exists>st. load_csv_to_clickhouse parse wh a = (None, st)
     \<and> inserted_rows (trace st) = records (csv_file_path a)
     \<and> total_rows st = length (records (csv_file_path a))
     \<and> skipped_rows st = 0
     \<and> set (log_levels (trace st)) \<subseteq> {INFO}"
proof -
  let ?cs = "chunks (nat (batch_size a)) (records (csv_file_path a))"
  let ?st2 = "emit [Logged INFO ReadingCsv]
                (emit [QueryExists, QueryMax c,
                       Logged INFO (if py_truthy T then LastTimestamp T else TableEmpty)]
                   \<lparr>trace = [Logged INFO (Connecting (host a)), NewClient (host a)],
                    total_rows = 0, skipped_rows = 0\<rparr>)"
  have nf: "\<not> filters a T"
    using col by (simp add: filters_def)
  have cc: "concat ?cs = records (csv_file_path a)"
    using bs by (simp add: chunks_concat)
  from load_chunks_plain[OF nf, of parse 0 ?cs ?st2]
  obtain st' where run: "load_chunks parse a T 0 ?cs ?st2 = (None, st')"
    and ins: "inserted_rows (trace st') = inserted_rows (trace ?st2) @ concat ?cs"
    and tot: "total_rows st' = total_rows ?st2 + length (concat ?cs)"
    and skp: "skipped_rows st' = skipped_rows ?st2"
    and lev: "set (log_levels (trace st')) \<subseteq> set (log_levels (trace ?st2)) \<union> {INFO}"
    by blast
  have body: "load_body parse wh a
      = (None, emit [Logged INFO (IncrementalDone (total_rows st') (skipped_rows st')), Disconnect] st')"
    using inc col bs wh(1,2) run
    by (simp add: load_body_def truthy_str_def watermark_found)
  have lev': "set (log_levels (trace st')) \<subseteq> {INFO}"
    using lev by auto
  show ?thesis
    unfolding load_csv_to_clickhouse_def body
    using ins tot skp lev' by (simp add: cc)
qed

text \<open>C9 at a CSV of names and e-mail addresses, loaded with \<open>Timestamp\<close> as the column.\<close>

theorem missing_timestamp_column_loads_all_witness:
  "\<exists>st. load_csv_to_clickhouse (\<lambda>v. Inl ParserError)
          \<lparr>exists_table = Inr 1, max_of_column = Inr (DTime 10)\<rparr>
          \<lparr>csv_file_path = \<lparr>header = [''Name'', ''Email''],
              records = [[DStr ''Ada'', DStr ''ada@x.com''], [DStr ''Bob'', DStr ''bob@x.com'']]\<rparr>,
           host = ''localhost'', database = ''mindfuel'', table_name = ''quote_suscribers'',
           batch_size = 1000, incremental = True, timestamp_column = Some ''Timestamp''\<rparr>
        = (None, st)
      \<and> inserted_rows (trace st) = [[DStr ''Ada'', DStr ''ada@x.com''], [DStr ''Bob'', DStr ''bob@x.com'']]
      \<and> total_rows st = 2 \<and> skipped_rows st = 0
      \<and> set (log_levels (trace st)) \<subseteq> {INFO}"
proof -
  let ?wh = "\<lparr>exists_table = Inr 1, max_of_column = Inr (DTime 10)\<rparr>"
  let ?a = "\<lparr>csv_file_path = \<lparr>header = [''Name'', ''Email''],
              records = [[DStr ''Ada'', DStr ''ada@x.com''], [DStr ''Bob'', DStr ''bob@x.com'']]\<rparr>,
           host = ''localhost'', database = ''mindfuel'', table_name = ''quote_suscribers'',
           batch_size = 1000, incremental = True, timestamp_column = Some ''Timestamp''\<rparr>"
  have h1: "incremental ?a" by simp
  have h2: "timestamp_column ?a = Some ''Timestamp''" by simp
  have h3: "''Timestamp'' \<noteq> []" by simp
  have h4: "''Timestamp'' \<notin> set (header (csv_file_path ?a))" by simp
  have h5: "1 \<le> batch_size ?a" by simp
  have h6: "exists_table ?wh = Inr 1" by simp
  have h7: "max_of_column ?wh = Inr (DTime 10)" by simp
  have h8: "DTime 10 \<noteq> DNull" by simp
  from missing_timestamp_column_loads_all[OF h1 h2 h3 h4 h5 h6 h7 h8, of "\<lambda>v. Inl ParserError"]
  show ?thesis by (simp add: eval_nat_numeral)
qed

text \<open>
  C6. With \<open>incremental=True\<close> and no timestamp column (\<open>None\<close> or the empty string) the
  loader raises \<open>ValueError\<close>. All it has done by then is to log that it connects and to
  build the client object; the handler logs the failure and re-raises. No query and no
  insert was sent, so no connection to the warehouse was opened and no row inserted.
\<close>

theorem incremental_without_column_raises:
  assumes "incremental a" and "\<not> truthy_str (timestamp_column a)"
  shows "load_csv_to_clickhouse parse wh a
      = (Some ValueError,
         \<lparr>trace = [Logged INFO (Connecting (host a)), NewClient (host a),
                   Logged ERROR (LoadFailed ValueError)],
          total_rows = 0, skipped_rows = 0\<rparr>)
    \<and> \<not> connection_opened (trace (snd (load_csv_to_clickhouse parse wh a)))
    \<and> inserted_rows (trace (snd (load_csv_to_clickhouse parse wh a))) = []"
  using assms
  by (simp add: load_csv_to_clickhouse_def load_body_def emit_def connection_opened_def
        is_execute_def)

text \<open>C6 at \<open>timestamp_column=None\<close> and at the empty column name.\<close>

theorem incremental_without_column_raises_witness:
  "fst (load_csv_to_clickhouse (\<lambda>v. Inl ParserError)
      \<lparr>exists_table = Inr 1, max_of_column = Inr (DTime 10)\<rparr>
      \<lparr>csv_file_path = \<lparr>header = [''Name''], records = [[DStr ''Ada'']]\<rparr>,
       host = ''localhost'', database = ''mindfuel'', table_name = ''quote_suscribers'',
       batch_size = 1000, incremental = True, timestamp_column = None\<rparr>) = Some ValueError
   \<and> \<not> connection_opened (trace (snd (load_csv_to_clickhouse (\<lambda>v. Inl ParserError)
      \<lparr>exists_table = Inr 1, max_of_column = Inr (DTime 10)\<rparr>
      \<lparr>csv_file_path = \<lparr>header = [''Name''], records = [[DStr ''Ada'']]\<rparr>,
       host = ''localhost'', database = ''mindfuel'', table_name = ''quote_suscribers'',
       batch_size = 1000, incremental = True, timestamp_column = None\<rparr>)))
   \<and> fst (load_csv_to_clickhouse (\<lambda>v. Inl ParserError)
      \<lparr>exists_table = Inr 1, max_of_column = Inr (DTime 10)\<rparr>
      \<lparr>csv_file_path = \<lparr>header = [''Name''], records = [[DStr ''Ada'']]\<rparr>,
       host = ''localhost'', database = ''mindfuel'', table_name = ''quote_suscribers'',
       batch_size = 1000, incremental = True, timestamp_column = Some []\<rparr>) = Some ValueError"
  using incremental_without_column_raises[of
      "\<lparr>csv_file_path = \<lparr>header = [''Name''], records = [[DStr ''Ada'']]\<rparr>,
       host = ''localhost'', database = ''mindfuel'', table_name = ''quote_suscribers'',
       batch_size = 1000, incremental = True, timestamp_column = None\<rparr>"
      "\<lambda>v. Inl ParserError" "\<lparr>exists_table = Inr 1, max_of_column = Inr (DTime 10)\<rparr>"]
    incremental_without_column_raises[of
      "\<lparr>csv_file_path = \<lparr>header = [''Name''], records = [[DStr ''Ada'']]\<rparr>,
       host = ''localhost'', database = ''mindfuel'', table_name = ''quote_suscribers'',
       batch_size = 1000, incremental = True, timestamp_column = Some []\<rparr>"
      "\<lambda>v. Inl ParserError" "\<lparr>exists_table = Inr 1, max_of_column = Inr (DTime 10)\<rparr>"]
  by (simp add: truthy_str_def connection_opened_def is_execute_def)

end
